theory Spec2Isabelle
  imports Complex_Main
begin

section \<open>Numbers, optional arguments and division\<close>

text \<open>
  The two modules \<^verbatim>\<open>henrys_law.py\<close> and \<^verbatim>\<open>rubiscos.py\<close> compute closed formulas over
  Python numbers. The arguments of every operation are Python floats, or ints within the
  range of a float, idealised as reals: rounding and the overflow of \<^verbatim>\<open>np.exp\<close> are not
  represented. The division \<^verbatim>\<open>/\<close> is the true division of Python 3.

  On Python numbers a division by zero raises \<^verbatim>\<open>ZeroDivisionError\<close>. An operation
  returns \<open>error + 'a\<close>, with \<open>Inl\<close> for the exception raised.
\<close>

datatype error = ZeroDivisionError

definition truediv :: "real \<Rightarrow> real \<Rightarrow> error + real" where
  "truediv a b = (if b = 0 then Inl ZeroDivisionError else Inr (a / b))"

text \<open>Sequencing: a failure of the first computation ends the whole one.\<close>

definition and_then :: "error + 'a \<Rightarrow> ('a \<Rightarrow> error + 'b) \<Rightarrow> error + 'b" where
  "and_then r f = (case r of Inl e \<Rightarrow> Inl e | Inr v \<Rightarrow> f v)"

text \<open>
  \<^verbatim>\<open>temp or self.ref_temp\<close>: an optional numeric argument (\<open>None\<close> when it is omitted)
  is replaced by the default when it is falsy, that is when it is \<^verbatim>\<open>None\<close> or zero.
\<close>

definition py_or :: "real option \<Rightarrow> real \<Rightarrow> real" where
  "py_or temp dflt = (case temp of None \<Rightarrow> dflt | Some t \<Rightarrow> if t = 0 then dflt else t)"

text \<open>
  \<^verbatim>\<open>np.exp\<close> returns a \<^verbatim>\<open>numpy.float64\<close>, and so does every product or quotient with
  one. A division of such numbers by zero raises nothing: it gives \<^verbatim>\<open>inf\<close>, \<^verbatim>\<open>-inf\<close> or
  \<^verbatim>\<open>nan\<close> (and a warning). The three are not told apart, the sign of an infinity
  being the sign of a zero; \<open>NonFinite\<close> stands for any of them.
\<close>

datatype number = Finite real | NonFinite

section \<open>The objects of the two modules\<close>

text \<open>
  One record for each class, with the attributes its \<^verbatim>\<open>__init__\<close> sets
  (\<^verbatim>\<open>_ref_h_cp\<close> and \<^verbatim>\<open>_t_dep\<close> without the leading underscore). The classes share
  attribute names; a field is written with its record's name
  (\<open>HenrysLaw.ref_temp\<close>, \<open>ArrheniusRubisco.K_C\<close>), except for the fields of
  \<open>RuBisCOParams\<close>, the record declared last.
\<close>

record HenrysLaw =
  name :: "string option"
  ref_h_cp :: real
  t_dep :: real
  ref_temp :: real

record ArrheniusParam =
  ref_value :: real
  ref_temp :: real
  e_act :: real

record ArrheniusRubisco =
  kcat_C :: ArrheniusParam
  K_C :: ArrheniusParam
  K_O :: ArrheniusParam
  S :: ArrheniusParam
  ref_temp :: real
  name :: "string option"
  mw :: real

record RuBisCOParams =
  kcat_C :: real
  K_C :: real
  K_O :: real
  S :: real
  kcat_O :: number
  name :: "string option"
  mw :: real

section \<open>henrys\_law.py\<close>

definition HenrysLaw_init :: "real \<Rightarrow> real \<Rightarrow> real \<Rightarrow> string option \<Rightarrow> HenrysLaw" where
  "HenrysLaw_init h_cp' t_dep' ref_temp' name' =
     \<lparr>HenrysLaw.name = name', ref_h_cp = h_cp', t_dep = t_dep', HenrysLaw.ref_temp = ref_temp'\<rparr>"

definition HenrysLaw_h_cp :: "HenrysLaw \<Rightarrow> real option \<Rightarrow> error + real" where
  "HenrysLaw_h_cp self temp =
     (let t = py_or temp (HenrysLaw.ref_temp self) in
      and_then (truediv 1 t) (\<lambda>a.
      and_then (truediv 1 (HenrysLaw.ref_temp self)) (\<lambda>b.
        let temp_term = a - b;
            exp_term = exp (t_dep self * temp_term)
        in Inr (ref_h_cp self * exp_term))))"

definition HenrysLaw_molar_conc :: "HenrysLaw \<Rightarrow> real \<Rightarrow> real option \<Rightarrow> error + real" where
  "HenrysLaw_molar_conc self p temp =
     and_then (HenrysLaw_h_cp self temp) (\<lambda>h.
       let conc = p * h in Inr (0.001 * conc))"

definition REF_T :: real where
  "REF_T = 298.15"

definition O2_SOL :: HenrysLaw where
  "O2_SOL = HenrysLaw_init 0.000012 1700 REF_T (Some ''O2'')"

definition CO2_SOL :: HenrysLaw where
  "CO2_SOL = HenrysLaw_init 0.00033 2400 REF_T (Some ''CO2'')"

section \<open>rubiscos.py: fixed parameters\<close>

text \<open>The keyword argument \<^verbatim>\<open>mw=65e3\<close>: \<open>None\<close> when the caller omits it.\<close>

definition default_mw :: "real option \<Rightarrow> real" where
  "default_mw mw' = (case mw' of None \<Rightarrow> 65000 | Some w \<Rightarrow> w)"

definition RuBisCOParams_init ::
  "real \<Rightarrow> real \<Rightarrow> real \<Rightarrow> real \<Rightarrow> string option \<Rightarrow> real option \<Rightarrow> error + RuBisCOParams" where
  "RuBisCOParams_init kcat_C' K_C' K_O' S' name' mw' =
     and_then (truediv (kcat_C' * K_O') (K_C' * S')) (\<lambda>kcat_O'.
       Inr \<lparr>kcat_C = kcat_C', K_C = K_C', K_O = K_O', S = S', kcat_O = Finite kcat_O',
            RuBisCOParams.name = name', mw = default_mw mw'\<rparr>)"

text \<open>
  The same constructor when its four numbers are \<^verbatim>\<open>numpy.float64\<close>, as they are in
  \<^verbatim>\<open>ArrheniusRubisco.concrete_temp\<close>: the division raises nothing, and with
  \<open>K_C * S = 0\<close> the object is built with \<^verbatim>\<open>inf\<close> or \<^verbatim>\<open>nan\<close> for \<^verbatim>\<open>kcat_O\<close>.
\<close>

definition RuBisCOParams_init_float64 ::
  "real \<Rightarrow> real \<Rightarrow> real \<Rightarrow> real \<Rightarrow> string option \<Rightarrow> real option \<Rightarrow> RuBisCOParams" where
  "RuBisCOParams_init_float64 kcat_C' K_C' K_O' S' name' mw' =
     \<lparr>kcat_C = kcat_C', K_C = K_C', K_O = K_O', S = S',
      kcat_O = (if K_C' * S' = 0 then NonFinite else Finite (kcat_C' * K_O' / (K_C' * S'))),
      RuBisCOParams.name = name', mw = default_mw mw'\<rparr>"

text \<open>
  The two rates. The divisions are those of Python numbers, except that a \<^verbatim>\<open>kcat_O\<close>
  that is \<^verbatim>\<open>inf\<close> or \<^verbatim>\<open>nan\<close> is a \<^verbatim>\<open>numpy.float64\<close>: divided by any number it stays
  \<^verbatim>\<open>inf\<close> or \<^verbatim>\<open>nan\<close>, and so does \<open>vc - vo / 2\<close>. (On an object built by
  \<^verbatim>\<open>concrete_temp\<close> the other attributes are \<^verbatim>\<open>numpy.float64\<close> too, and a zero divisor
  gives \<^verbatim>\<open>inf\<close> or \<^verbatim>\<open>nan\<close> where the definitions below have the exception; the two
  agree wherever no divisor is zero.)
\<close>

definition truediv_number :: "number \<Rightarrow> real \<Rightarrow> error + number" where
  "truediv_number a b =
     (case a of Finite x \<Rightarrow> and_then (truediv x b) (\<lambda>q. Inr (Finite q))
              | NonFinite \<Rightarrow> Inr NonFinite)"

definition minus_half :: "real \<Rightarrow> number \<Rightarrow> number" where
  "minus_half vc vo = (case vo of Finite v \<Rightarrow> Finite (vc - v / 2) | NonFinite \<Rightarrow> NonFinite)"

definition RuBisCOParams_vs :: "RuBisCOParams \<Rightarrow> real \<Rightarrow> real \<Rightarrow> error + real \<times> number" where
  "RuBisCOParams_vs self co2 o2 =
     and_then (truediv (K_C self) co2) (\<lambda>a.
     and_then (truediv (K_C self * o2) (K_O self * co2)) (\<lambda>b.
     and_then (truediv (kcat_C self) (1 + a + b)) (\<lambda>vc.
     and_then (truediv (K_O self) o2) (\<lambda>c.
     and_then (truediv (K_O self * co2) (K_C self * o2)) (\<lambda>d.
     and_then (truediv_number (kcat_O self) (1 + c + d)) (\<lambda>vo.
       Inr (vc, vo)))))))"

definition RuBisCOParams_net_vc :: "RuBisCOParams \<Rightarrow> real \<Rightarrow> real \<Rightarrow> error + number" where
  "RuBisCOParams_net_vc self co2 o2 =
     and_then (RuBisCOParams_vs self co2 o2) (\<lambda>(vc, vo). Inr (minus_half vc vo))"




definition PCC7942 :: "error + RuBisCOParams" where
  "PCC7942 = RuBisCOParams_init 14.4 172 585 43 (Some ''PCC7942'') None"

definition RUBRUM :: "error + RuBisCOParams" where
  "RUBRUM = RuBisCOParams_init 7.3 80 406 12.3 (Some ''Rubrum'') (Some 52000)"

definition SPINACH :: "error + RuBisCOParams" where
  "SPINACH = RuBisCOParams_init 3.7 14 480 80 (Some ''Spinach'') None"

definition MAIZE :: "error + RuBisCOParams" where
  "MAIZE = RuBisCOParams_init 4.4 34 810 78 (Some ''Maize'') None"

definition TOBACCO :: "error + RuBisCOParams" where
  "TOBACCO = RuBisCOParams_init 3.4 10.7 295 82 (Some ''Tobacco'') None"

section \<open>rubiscos.py: Arrhenius parameters\<close>

text \<open>The universal gas constant \<^verbatim>\<open>_R\<close>, in kJ/mol/K.\<close>

definition R :: real where
  "R = 0.008314"

definition ArrheniusParam_init :: "real \<Rightarrow> real \<Rightarrow> real \<Rightarrow> ArrheniusParam" where
  "ArrheniusParam_init ref_value' ref_temp' e_act' =
     \<lparr>ref_value = ref_value', ArrheniusParam.ref_temp = ref_temp', e_act = e_act'\<rparr>"

definition ArrheniusParam_value :: "ArrheniusParam \<Rightarrow> real option \<Rightarrow> error + real" where
  "ArrheniusParam_value self temp =
     (let my_temp = py_or temp (ArrheniusParam.ref_temp self) in
      and_then (truediv (- e_act self) (R * my_temp)) (\<lambda>a.
      and_then (truediv (a * (ArrheniusParam.ref_temp self - my_temp))
                        (ArrheniusParam.ref_temp self)) (\<lambda>x.
        let exp_term = exp x in Inr (ref_value self * exp_term))))"

section \<open>rubiscos.py: temperature-dependent parameters\<close>

definition ArrheniusRubisco_init ::
  "ArrheniusParam \<Rightarrow> ArrheniusParam \<Rightarrow> ArrheniusParam \<Rightarrow> ArrheniusParam \<Rightarrow>
   real option \<Rightarrow> string option \<Rightarrow> real option \<Rightarrow> ArrheniusRubisco" where
  "ArrheniusRubisco_init kcat_C' K_C' K_O' S' ref_temp' name' mw' =
     \<lparr>ArrheniusRubisco.kcat_C = kcat_C', ArrheniusRubisco.K_C = K_C',
      ArrheniusRubisco.K_O = K_O', ArrheniusRubisco.S = S',
      ArrheniusRubisco.ref_temp = py_or ref_temp' 298.15,
      ArrheniusRubisco.name = name', ArrheniusRubisco.mw = default_mw mw'\<rparr>"

text \<open>
  In \<^verbatim>\<open>concrete_temp\<close> the four values and the two coefficients are
  \<^verbatim>\<open>numpy.float64\<close>. The divisor of \<^verbatim>\<open>sol_ratio\<close> is a coefficient
  \<^verbatim>\<open>CO2_SOL.h_cp(temp)\<close>, the product of \<open>3.3e-4\<close> and an exponential, which is never
  zero.
\<close>

definition ArrheniusRubisco_concrete_temp :: "ArrheniusRubisco \<Rightarrow> real \<Rightarrow> error + RuBisCOParams" where
  "ArrheniusRubisco_concrete_temp self temp =
     and_then (ArrheniusParam_value (ArrheniusRubisco.kcat_C self) (Some temp)) (\<lambda>kcat_C'.
     and_then (ArrheniusParam_value (ArrheniusRubisco.K_C self) (Some temp)) (\<lambda>K_C'.
     and_then (ArrheniusParam_value (ArrheniusRubisco.K_O self) (Some temp)) (\<lambda>K_O'.
     and_then (ArrheniusParam_value (ArrheniusRubisco.S self) (Some temp)) (\<lambda>S'.
     and_then (HenrysLaw_molar_conc CO2_SOL K_C' (Some temp)) (\<lambda>cc.
     and_then (HenrysLaw_molar_conc O2_SOL K_O' (Some temp)) (\<lambda>co.
     and_then (HenrysLaw_h_cp O2_SOL (Some temp)) (\<lambda>ho.
     and_then (HenrysLaw_h_cp CO2_SOL (Some temp)) (\<lambda>hc.
       let K_C_umolar = cc * 1000000;
           K_O_umolar = co * 1000000;
           sol_ratio = ho / hc;
           S_sol = S' * sol_ratio
       in Inr (RuBisCOParams_init_float64 kcat_C' K_C_umolar K_O_umolar S_sol
            (ArrheniusRubisco.name self) (Some (ArrheniusRubisco.mw self)))))))))))"

definition ArrheniusRubisco_vs ::
  "ArrheniusRubisco \<Rightarrow> real \<Rightarrow> real \<Rightarrow> real option \<Rightarrow> error + real \<times> number" where
  "ArrheniusRubisco_vs self co2 o2 temp =
     (let temp' = py_or temp (ArrheniusRubisco.ref_temp self) in
      and_then (ArrheniusRubisco_concrete_temp self temp') (\<lambda>rps.
        RuBisCOParams_vs rps co2 o2))"

definition ArrheniusRubisco_net_vc ::
  "ArrheniusRubisco \<Rightarrow> real \<Rightarrow> real \<Rightarrow> real option \<Rightarrow> error + number" where
  "ArrheniusRubisco_net_vc self co2 o2 temp =
     (let temp' = py_or temp (ArrheniusRubisco.ref_temp self) in
      and_then (ArrheniusRubisco_concrete_temp self temp') (\<lambda>rps.
        RuBisCOParams_net_vc rps co2 o2))"

definition ATHALIANA_T :: ArrheniusRubisco where
  "ATHALIANA_T = ArrheniusRubisco_init
     (ArrheniusParam_init 3.1 REF_T 59.6)
     (ArrheniusParam_init 36 REF_T 63.0)
     (ArrheniusParam_init 23100 REF_T 16.9)
     (ArrheniusParam_init 2003 REF_T (- 28.7))
     (Some REF_T) (Some ''A. thaliana'') None"

section \<open>The temperature a call is evaluated at\<close>

text \<open>
  The rule for the optional temperature of \<^verbatim>\<open>ArrheniusRubisco.vs\<close> and
  \<^verbatim>\<open>ArrheniusRubisco.net_vc\<close>, written from its description rather than from the code:
  the supplied temperature when there is one and it is not zero, the reference
  temperature of the model when the argument is omitted or is zero.
\<close>

definition resolved_temperature :: "ArrheniusRubisco \<Rightarrow> real option \<Rightarrow> real" where
  "resolved_temperature m t =
     (if t = None \<or> t = Some 0 then ArrheniusRubisco.ref_temp m else the t)"

section \<open>Evaluation rules\<close>

lemma truediv_nonzero: "b \<noteq> 0 \<Longrightarrow> truediv a b = Inr (a / b)"
  by (simp add: truediv_def)

lemma truediv_zero: "truediv a 0 = Inl ZeroDivisionError"
  by (simp add: truediv_def)

lemma and_then_Inr: "and_then (Inr v) f = f v"
  by (simp add: and_then_def)

lemma and_then_Inl: "and_then (Inl e) f = Inl e"
  by (simp add: and_then_def)

lemma truediv_number_Finite:
  "b \<noteq> 0 \<Longrightarrow> truediv_number (Finite x) b = Inr (Finite (x / b))"
  by (simp add: truediv_number_def truediv_def and_then_def)


lemma py_or_None: "py_or None d = d"
  by (simp add: py_or_def)

lemma py_or_zero: "py_or (Some 0) d = d"
  by (simp add: py_or_def)

lemma py_or_nonzero: "t \<noteq> 0 \<Longrightarrow> py_or (Some t) d = t"
  by (simp add: py_or_def)

lemma py_or_never_zero: "d \<noteq> 0 \<Longrightarrow> py_or temp d \<noteq> 0"
  by (simp add: py_or_def split: option.split)

section \<open>Henry's law\<close>

text \<open>With a nonzero reference temperature no divisor of \<^verbatim>\<open>h_cp\<close> is zero.\<close>

lemma h_cp_nonzero:
  assumes "HenrysLaw.ref_temp m \<noteq> 0"
  shows "HenrysLaw_h_cp m temp =
    Inr (ref_h_cp m *
         exp (t_dep m * (1 / py_or temp (HenrysLaw.ref_temp m) - 1 / HenrysLaw.ref_temp m)))"
  using assms py_or_never_zero [of "HenrysLaw.ref_temp m" temp]
  by (simp add: HenrysLaw_h_cp_def Let_def truediv_nonzero and_then_Inr)

lemma h_cp_zero_ref:
  assumes "HenrysLaw.ref_temp m = 0"
  shows "HenrysLaw_h_cp m temp = Inl ZeroDivisionError"
  using assms
  by (simp add: HenrysLaw_h_cp_def Let_def truediv_def and_then_def split: sum.split)

text \<open>
  C3. For a solubility model with a positive reference temperature and a supplied
  temperature \<open>t > 0\<close>, \<^verbatim>\<open>h_cp(t)\<close> is
  \<open>ref_h_cp * exp (t_dep * (1/t - 1/ref_temp))\<close>; with the temperature omitted the
  reference temperature takes its place; and at the reference temperature the result is
  the reference coefficient itself.
\<close>

theorem h_cp_formula:
  assumes "0 < HenrysLaw.ref_temp m" and "0 < t"
  shows "HenrysLaw_h_cp m (Some t) =
           Inr (ref_h_cp m * exp (t_dep m * (1 / t - 1 / HenrysLaw.ref_temp m)))
       \<and> HenrysLaw_h_cp m None = HenrysLaw_h_cp m (Some (HenrysLaw.ref_temp m))
       \<and> HenrysLaw_h_cp m (Some (HenrysLaw.ref_temp m)) = Inr (ref_h_cp m)"
  using assms by (simp add: h_cp_nonzero py_or_def)

theorem h_cp_formula_witness:
  "0 < HenrysLaw.ref_temp CO2_SOL \<and> (0::real) < 310
   \<and> HenrysLaw_h_cp CO2_SOL (Some 310) = Inr (0.00033 * exp (2400 * (1 / 310 - 1 / 298.15)))
   \<and> HenrysLaw_h_cp CO2_SOL None = Inr 0.00033"
  using h_cp_formula [of CO2_SOL 310]
  by (simp add: CO2_SOL_def HenrysLaw_init_def REF_T_def)

text \<open>
  C8. For every solubility model, partial pressure \<open>p\<close> and temperature argument
  (supplied or omitted), \<^verbatim>\<open>molar_conc(p, t)\<close> is \<open>1e-3 * p * h_cp(t)\<close>, and fails where
  \<^verbatim>\<open>h_cp(t)\<close> fails. For the CO2 constant, \<^verbatim>\<open>molar_conc(1.0, 298.15)\<close> is \<open>3.3e-7\<close> and
  \<^verbatim>\<open>h_cp(298.15)\<close> is \<open>3.3e-4\<close>.
\<close>

theorem molar_conc_formula:
  "HenrysLaw_molar_conc m p temp =
     (case HenrysLaw_h_cp m temp of Inl e \<Rightarrow> Inl e | Inr h \<Rightarrow> Inr (0.001 * p * h))
   \<and> HenrysLaw_molar_conc CO2_SOL 1.0 (Some 298.15) = Inr 0.00000033
   \<and> HenrysLaw_h_cp CO2_SOL (Some 298.15) = Inr 0.00033"
proof -
  have ref: "HenrysLaw.ref_temp CO2_SOL = 298.15" "ref_h_cp CO2_SOL = 0.00033"
    by (simp_all add: CO2_SOL_def HenrysLaw_init_def REF_T_def)
  have gen: "HenrysLaw_molar_conc m p temp =
     (case HenrysLaw_h_cp m temp of Inl e \<Rightarrow> Inl e | Inr h \<Rightarrow> Inr (0.001 * p * h))"
    by (simp add: HenrysLaw_molar_conc_def and_then_def Let_def mult.assoc split: sum.split)
  have h: "HenrysLaw_h_cp CO2_SOL (Some 298.15) = Inr 0.00033"
    by (simp add: h_cp_nonzero ref py_or_def)
  have "HenrysLaw_molar_conc CO2_SOL 1.0 (Some 298.15) = Inr 0.00000033"
    using h by (simp add: HenrysLaw_molar_conc_def and_then_Inr)
  with gen h show ?thesis by blast
qed

theorem molar_conc_formula_witness:
  "HenrysLaw_molar_conc O2_SOL 20000 None = Inr 0.00024
   \<and> HenrysLaw_h_cp O2_SOL None = Inr 0.000012"
proof -
  have ref: "HenrysLaw.ref_temp O2_SOL = 298.15" "ref_h_cp O2_SOL = 0.000012"
    by (simp_all add: O2_SOL_def HenrysLaw_init_def REF_T_def)
  have h: "HenrysLaw_h_cp O2_SOL None = Inr 0.000012"
    by (simp add: h_cp_nonzero ref py_or_def)
  show ?thesis
    using molar_conc_formula [of O2_SOL 20000 None] by (simp add: h)
qed

text \<open>
  C9, as the code has it. On a model whose reference temperature is zero \<^verbatim>\<open>h_cp\<close> and
  \<^verbatim>\<open>molar_conc\<close> divide by zero for every temperature argument, supplied or omitted: the
  zero is not guarded, and the division of Python floats raises \<^verbatim>\<open>ZeroDivisionError\<close>;
  no \<^verbatim>\<open>inf\<close> or \<^verbatim>\<open>nan\<close> is returned. On a model whose reference temperature is not
  zero both return, for every temperature argument that is omitted or not zero.
\<close>

theorem h_cp_failure:
  "(HenrysLaw.ref_temp m = 0 \<longrightarrow>
      HenrysLaw_h_cp m temp = Inl ZeroDivisionError
      \<and> HenrysLaw_molar_conc m p temp = Inl ZeroDivisionError)
   \<and> (HenrysLaw.ref_temp m \<noteq> 0 \<and> temp \<noteq> Some 0 \<longrightarrow>
      (\<exists>h. HenrysLaw_h_cp m temp = Inr h
         \<and> HenrysLaw_molar_conc m p temp = Inr (0.001 * p * h)))"
proof (intro conjI impI)
  assume z: "HenrysLaw.ref_temp m = 0"
  then show "HenrysLaw_h_cp m temp = Inl ZeroDivisionError"
    by (rule h_cp_zero_ref)
  with z show "HenrysLaw_molar_conc m p temp = Inl ZeroDivisionError"
    by (simp add: HenrysLaw_molar_conc_def and_then_Inl)
next
  assume "HenrysLaw.ref_temp m \<noteq> 0 \<and> temp \<noteq> Some 0"
  then show "\<exists>h. HenrysLaw_h_cp m temp = Inr h
         \<and> HenrysLaw_molar_conc m p temp = Inr (0.001 * p * h)"
    by (simp add: HenrysLaw_molar_conc_def h_cp_nonzero and_then_Inr)
qed

theorem h_cp_failure_witness:
  "HenrysLaw.ref_temp (HenrysLaw_init 0.000012 1700 0 (Some ''O2'')) = 0
   \<and> HenrysLaw_h_cp (HenrysLaw_init 0.000012 1700 0 (Some ''O2'')) None = Inl ZeroDivisionError
   \<and> HenrysLaw_molar_conc (HenrysLaw_init 0.000012 1700 0 (Some ''O2'')) 20000 None
       = Inl ZeroDivisionError
   \<and> HenrysLaw.ref_temp CO2_SOL \<noteq> 0 \<and> Some (310 :: real) \<noteq> Some 0
   \<and> (\<exists>h. HenrysLaw_h_cp CO2_SOL (Some 310) = Inr h
         \<and> HenrysLaw_molar_conc CO2_SOL 1 (Some 310) = Inr (0.001 * 1 * h))"
proof -
  have z: "HenrysLaw.ref_temp (HenrysLaw_init 0.000012 1700 0 (Some ''O2'')) = 0"
    by (simp add: HenrysLaw_init_def)
  have r: "HenrysLaw.ref_temp CO2_SOL \<noteq> 0" "Some (310 :: real) \<noteq> Some 0"
    by (simp_all add: CO2_SOL_def HenrysLaw_init_def REF_T_def)
  from z r show ?thesis
    using h_cp_failure [of "HenrysLaw_init 0.000012 1700 0 (Some ''O2'')" None 20000]
      h_cp_failure [of CO2_SOL "Some 310" 1]
    by blast
qed

text \<open>
  A solubility model with reference temperature zero, at 310 K: the division
  \<^verbatim>\<open>1.0/self.ref_temp\<close> raises \<^verbatim>\<open>ZeroDivisionError\<close>.
\<close>

theorem h_cp_zero_reference_counterexample:
  "HenrysLaw_h_cp (HenrysLaw_init 0.00033 2400 0 (Some ''CO2'')) (Some 310)
     = Inl ZeroDivisionError
   \<and> HenrysLaw_molar_conc (HenrysLaw_init 0.00033 2400 0 (Some ''CO2'')) 1 (Some 310)
     = Inl ZeroDivisionError"
  by (simp add: HenrysLaw_molar_conc_def h_cp_zero_ref HenrysLaw_init_def and_then_Inl)

text \<open>
  The code at a temperature argument of zero: \<^verbatim>\<open>temp or self.ref_temp\<close> takes the
  reference temperature.
\<close>

lemma h_cp_zero_temperature:
  "HenrysLaw_h_cp m (Some 0) = HenrysLaw_h_cp m None"
  "HenrysLaw_h_cp CO2_SOL (Some 0) = Inr 0.00033"
proof -
  have ref: "HenrysLaw.ref_temp CO2_SOL = 298.15" "ref_h_cp CO2_SOL = 0.00033"
    by (simp_all add: CO2_SOL_def HenrysLaw_init_def REF_T_def)
  show "HenrysLaw_h_cp m (Some 0) = HenrysLaw_h_cp m None"
    by (simp add: HenrysLaw_h_cp_def py_or_def)
  show "HenrysLaw_h_cp CO2_SOL (Some 0) = Inr 0.00033"
    by (simp add: h_cp_nonzero ref py_or_def)
qed

section \<open>Arrhenius parameters\<close>

lemma value_nonzero:
  assumes "ArrheniusParam.ref_temp q \<noteq> 0"
  shows "ArrheniusParam_value q temp =
    Inr (ref_value q *
         exp ((- e_act q / (R * py_or temp (ArrheniusParam.ref_temp q)))
              * (ArrheniusParam.ref_temp q - py_or temp (ArrheniusParam.ref_temp q))
              / ArrheniusParam.ref_temp q))"
proof -
  have "R * py_or temp (ArrheniusParam.ref_temp q) \<noteq> 0"
    using assms py_or_never_zero [of "ArrheniusParam.ref_temp q" temp] by (simp add: R_def)
  then show ?thesis
    using assms by (simp add: ArrheniusParam_value_def Let_def truediv_nonzero and_then_Inr)
qed

text \<open>
  C4. For an Arrhenius parameter with a positive reference temperature and a supplied
  temperature \<open>t > 0\<close>, \<^verbatim>\<open>value(t)\<close> is
  \<open>ref_value * exp ((- e_act / (R * t)) * (ref_temp - t) / ref_temp)\<close> with
  \<open>R = 8.314e-3\<close>; with the temperature omitted the parameter's own reference
  temperature takes its place; and at the reference temperature the result is the
  reference value itself.
\<close>

theorem value_formula:
  assumes "0 < ArrheniusParam.ref_temp q" and "0 < t"
  shows "ArrheniusParam_value q (Some t) =
           Inr (ref_value q *
                exp ((- e_act q / (R * t)) * (ArrheniusParam.ref_temp q - t)
                     / ArrheniusParam.ref_temp q))
       \<and> R = 8.314 / 1000
       \<and> ArrheniusParam_value q None = ArrheniusParam_value q (Some (ArrheniusParam.ref_temp q))
       \<and> ArrheniusParam_value q (Some (ArrheniusParam.ref_temp q)) = Inr (ref_value q)"
  using assms by (simp add: value_nonzero py_or_def R_def)

theorem value_formula_witness:
  "0 < ArrheniusParam.ref_temp (ArrheniusRubisco.kcat_C ATHALIANA_T) \<and> (0::real) < 310
   \<and> ArrheniusParam_value (ArrheniusRubisco.kcat_C ATHALIANA_T) (Some 310) =
       Inr (3.1 * exp ((- 59.6 / (0.008314 * 310)) * (298.15 - 310) / 298.15))
   \<and> ArrheniusParam_value (ArrheniusRubisco.kcat_C ATHALIANA_T) None = Inr 3.1"
  using value_formula [of "ArrheniusRubisco.kcat_C ATHALIANA_T" 310]
  by (simp add: ATHALIANA_T_def ArrheniusRubisco_init_def ArrheniusParam_init_def REF_T_def R_def)

section \<open>Fixed parameters\<close>

text \<open>Called with Python numbers, the constructor returns exactly when \<open>K_C * S\<close> is not zero.\<close>

lemma init_Inr:
  assumes "K_C' * S' \<noteq> 0"
  shows "RuBisCOParams_init kcat_C' K_C' K_O' S' name' mw' =
     Inr \<lparr>kcat_C = kcat_C', K_C = K_C', K_O = K_O', S = S',
          kcat_O = Finite (kcat_C' * K_O' / (K_C' * S')),
          RuBisCOParams.name = name', mw = default_mw mw'\<rparr>"
  using assms by (simp add: RuBisCOParams_init_def truediv_def and_then_def)

lemma init_fields:
  assumes "RuBisCOParams_init kcat_C' K_C' K_O' S' name' mw' = Inr p"
  shows "kcat_C p = kcat_C'" "K_C p = K_C'" "K_O p = K_O'" "S p = S'"
    "kcat_O p = Finite (kcat_C' * K_O' / (K_C' * S'))" "K_C' * S' \<noteq> 0"
    "RuBisCOParams.name p = name'" "mw p = default_mw mw'"
  using assms by (auto simp: RuBisCOParams_init_def truediv_def and_then_def split: if_splits)

subsection \<open>The specificity, there and back\<close>









text \<open>
  C10. With the argument \<^verbatim>\<open>mw\<close> omitted both constructors store \<open>65e3\<close>; so do the
  constants \<^verbatim>\<open>PCC7942\<close>, \<^verbatim>\<open>SPINACH\<close>, \<^verbatim>\<open>MAIZE\<close>, \<^verbatim>\<open>TOBACCO\<close> and
  \<^verbatim>\<open>ATHALIANA_T\<close>, while \<^verbatim>\<open>RUBRUM\<close> is built with \<open>52e3\<close>.
\<close>

theorem default_molar_mass:
  "(RuBisCOParams_init kc kC kO s nm None = Inr p \<longrightarrow> RuBisCOParams.mw p = 65000)
   \<and> ArrheniusRubisco.mw (ArrheniusRubisco_init a b c d rt nm None) = 65000
   \<and> (\<exists>p. PCC7942 = Inr p \<and> RuBisCOParams.mw p = 65000)
   \<and> (\<exists>p. SPINACH = Inr p \<and> RuBisCOParams.mw p = 65000)
   \<and> (\<exists>p. MAIZE = Inr p \<and> RuBisCOParams.mw p = 65000)
   \<and> (\<exists>p. TOBACCO = Inr p \<and> RuBisCOParams.mw p = 65000)
   \<and> (\<exists>p. RUBRUM = Inr p \<and> RuBisCOParams.mw p = 52000)
   \<and> ArrheniusRubisco.mw ATHALIANA_T = 65000"
proof -
  have 1: "RuBisCOParams_init kc kC kO s nm None = Inr p \<longrightarrow> RuBisCOParams.mw p = 65000"
    by (auto simp: init_fields default_mw_def)
  have 2: "ArrheniusRubisco.mw (ArrheniusRubisco_init a b c d rt nm None) = 65000"
    for a b c d rt nm
    by (simp add: ArrheniusRubisco_init_def default_mw_def)
  have 3: "\<exists>p. PCC7942 = Inr p \<and> RuBisCOParams.mw p = 65000"
    by (simp add: PCC7942_def init_Inr default_mw_def)
  have 4: "\<exists>p. SPINACH = Inr p \<and> RuBisCOParams.mw p = 65000"
    by (simp add: SPINACH_def init_Inr default_mw_def)
  have 5: "\<exists>p. MAIZE = Inr p \<and> RuBisCOParams.mw p = 65000"
    by (simp add: MAIZE_def init_Inr default_mw_def)
  have 6: "\<exists>p. TOBACCO = Inr p \<and> RuBisCOParams.mw p = 65000"
    by (simp add: TOBACCO_def init_Inr default_mw_def)
  have 7: "\<exists>p. RUBRUM = Inr p \<and> RuBisCOParams.mw p = 52000"
    by (simp add: RUBRUM_def init_Inr default_mw_def)
  have 8: "ArrheniusRubisco.mw ATHALIANA_T = 65000"
    by (simp add: ATHALIANA_T_def 2)
  from 1 2 3 4 5 6 7 8 show ?thesis by blast
qed

theorem default_molar_mass_witness:
  "RuBisCOParams_init 3.7 14 480 80 (Some ''Spinach'') None =
     Inr \<lparr>kcat_C = 3.7, K_C = 14, K_O = 480, S = 80, kcat_O = Finite (3.7 * 480 / (14 * 80)),
          RuBisCOParams.name = Some ''Spinach'', mw = 65000\<rparr>
   \<and> RuBisCOParams.mw \<lparr>kcat_C = 3.7, K_C = 14, K_O = 480, S = 80, kcat_O = Finite (3.7 * 480 / (14 * 80)),
          RuBisCOParams.name = Some ''Spinach'', mw = 65000\<rparr> = 65000"
  using default_molar_mass [of "3.7" 14 480 80 "Some ''Spinach''"
      "\<lparr>kcat_C = 3.7, K_C = 14, K_O = 480, S = 80, kcat_O = Finite (3.7 * 480 / (14 * 80)),
          RuBisCOParams.name = Some ''Spinach'', mw = 65000\<rparr>"]
  by (simp add: init_Inr default_mw_def)

subsection \<open>The two rates\<close>

text \<open>
  With nonzero concentrations and affinities the two denominators of \<^verbatim>\<open>vs\<close> are the
  same sum over different products.
\<close>

lemma denominators:
  fixes kC kO co2 o2 :: real
  assumes "co2 \<noteq> 0" "o2 \<noteq> 0" "kC \<noteq> 0" "kO \<noteq> 0"
  shows "1 + kC / co2 + kC * o2 / (kO * co2) = (kO * co2 + kC * kO + kC * o2) / (kO * co2)"
    and "1 + kO / o2 + kO * co2 / (kC * o2) = (kO * co2 + kC * kO + kC * o2) / (kC * o2)"
  using assms by (simp_all add: field_simps)

lemma denominators_positive:
  fixes kC kO co2 o2 :: real
  assumes "0 < kC" "0 < kO" "0 < co2" "0 < o2"
  shows "0 < 1 + kC / co2 + kC * o2 / (kO * co2)"
    and "0 < 1 + kO / o2 + kO * co2 / (kC * o2)"
  using assms by (simp_all add: add_pos_pos)

lemma vs_positive:
  assumes "0 < K_C p" "0 < K_O p" "0 < co2" "0 < o2"
  shows "RuBisCOParams_vs p co2 o2 =
     and_then (truediv_number (kcat_O p) (1 + K_O p / o2 + K_O p * co2 / (K_C p * o2))) (\<lambda>vo.
       Inr (kcat_C p / (1 + K_C p / co2 + K_C p * o2 / (K_O p * co2)), vo))"
proof -
  have "1 + K_C p / co2 + K_C p * o2 / (K_O p * co2) \<noteq> 0"
    using denominators_positive(1) [OF assms] by simp
  then show ?thesis
    using assms by (simp add: RuBisCOParams_vs_def truediv_nonzero and_then_Inr)
qed




subsection \<open>The net rate is monotone\<close>

lemma quotient_less:
  fixes x y D1 D2 :: real
  assumes "0 < D1" "0 < D2" "x * D1 < y * D2"
  shows "x / D2 < y / D1"
proof -
  have "(x * D1 - y * D2) / (D2 * D1) < 0"
    using assms by (simp add: divide_neg_pos)
  then show ?thesis
    using assms by (simp add: frac_less_eq)
qed

lemma net_decreasing_in_o2:
  fixes kC kO u c o1 o2 :: real
  assumes pos: "0 < kC" "0 < kO" "0 < u" "0 < c" "0 < o1" and lt: "o1 < o2"
  shows "(c - o2 * u) / (kO * c + kC * kO + kC * o2)
       < (c - o1 * u) / (kO * c + kC * kO + kC * o1)"
proof (rule quotient_less)
  show "0 < kO * c + kC * kO + kC * o1"
    using pos by (simp add: add_pos_pos)
  show "0 < kO * c + kC * kO + kC * o2"
    using pos lt by (simp add: add_pos_pos)
  have "(c - o1 * u) * (kO * c + kC * kO + kC * o2)
      - (c - o2 * u) * (kO * c + kC * kO + kC * o1)
      = (o2 - o1) * (kC * c + (kO * c + kC * kO) * u)"
    by (simp add: algebra_simps)
  moreover have "0 < (o2 - o1) * (kC * c + (kO * c + kC * kO) * u)"
    using pos lt by (simp add: add_pos_pos)
  ultimately show "(c - o2 * u) * (kO * c + kC * kO + kC * o1)
      < (c - o1 * u) * (kO * c + kC * kO + kC * o2)"
    by linarith
qed

lemma net_increasing_in_co2:
  fixes kC kO u c1 c2 ox :: real
  assumes pos: "0 < kC" "0 < kO" "0 < u" "0 < ox" "0 < c1" and lt: "c1 < c2"
  shows "(c1 - ox * u) / (kO * c1 + kC * kO + kC * ox)
       < (c2 - ox * u) / (kO * c2 + kC * kO + kC * ox)"
proof (rule quotient_less)
  show "0 < kO * c2 + kC * kO + kC * ox"
    using pos lt by (simp add: add_pos_pos)
  show "0 < kO * c1 + kC * kO + kC * ox"
    using pos by (simp add: add_pos_pos)
  have "(c2 - ox * u) * (kO * c1 + kC * kO + kC * ox)
      - (c1 - ox * u) * (kO * c2 + kC * kO + kC * ox)
      = (c2 - c1) * (kC * kO + kC * ox + kO * ox * u)"
    by (simp add: algebra_simps)
  moreover have "0 < (c2 - c1) * (kC * kO + kC * ox + kO * ox * u)"
    using pos lt by (simp add: add_pos_pos)
  ultimately show "(c1 - ox * u) * (kO * c2 + kC * kO + kC * ox)
      < (c2 - ox * u) * (kO * c1 + kC * kO + kC * ox)"
    by linarith
qed

text \<open>
  For positive constants and concentrations the net rate is
  \<open>kcat_C * K_O * (co2 - o2/(2*S)) / (K_O*co2 + K_C*K_O + K_C*o2)\<close>.
\<close>

lemma net_vc_closed:
  assumes p: "RuBisCOParams_init kc kC kO s nm w = Inr p"
    and pos: "0 < kC" "0 < kO" "0 < s" "0 < co2" "0 < o2"
  shows "RuBisCOParams_net_vc p co2 o2 =
     Inr (Finite (kc * kO * ((co2 - o2 * (1 / (2 * s))) / (kO * co2 + kC * kO + kC * o2))))"
proof -
  note f = init_fields [OF p]
  define N where "N = kO * co2 + kC * kO + kC * o2"
  have N: "0 < N"
    unfolding N_def using pos by (simp add: add_pos_pos)
  have nz: "co2 \<noteq> 0" "o2 \<noteq> 0" "kC \<noteq> 0" "kO \<noteq> 0"
    using pos by simp_all
  have nz': "s \<noteq> 0" "N \<noteq> 0"
    using pos N by simp_all
  have d1: "1 + kC / co2 + kC * o2 / (kO * co2) = N / (kO * co2)"
    unfolding N_def by (rule denominators(1) [OF nz])
  have d2: "1 + kO / o2 + kO * co2 / (kC * o2) = N / (kC * o2)"
    unfolding N_def by (rule denominators(2) [OF nz])
  have d2': "N / (kC * o2) \<noteq> 0"
    using nz nz' by simp
  have "RuBisCOParams_vs p co2 o2 =
     and_then (truediv_number (Finite (kc * kO / (kC * s))) (N / (kC * o2))) (\<lambda>vo.
       Inr (kc / (N / (kO * co2)), vo))"
    using vs_positive [of p co2 o2] pos unfolding f d1 d2 by simp
  then have vs: "RuBisCOParams_vs p co2 o2 =
     Inr (kc / (N / (kO * co2)), Finite ((kc * kO / (kC * s)) / (N / (kC * o2))))"
    unfolding truediv_number_Finite [OF d2'] and_then_Inr .
  have vc: "kc / (N / (kO * co2)) = kc * kO * (co2 / N)"
    by simp
  have vo: "(kc * kO / (kC * s)) / (N / (kC * o2)) / 2 = kc * kO * (o2 * (1 / (2 * s)) / N)"
    using nz nz' by simp
  have "RuBisCOParams_net_vc p co2 o2 =
      Inr (Finite (kc * kO * (co2 / N) - kc * kO * (o2 * (1 / (2 * s)) / N)))"
    unfolding RuBisCOParams_net_vc_def vs and_then_Inr using vc vo by (simp add: minus_half_def)
  also have "kc * kO * (co2 / N) - kc * kO * (o2 * (1 / (2 * s)) / N)
      = kc * kO * ((co2 - o2 * (1 / (2 * s))) / N)"
    by (simp only: right_diff_distrib diff_divide_distrib)
  finally show ?thesis
    unfolding N_def .
qed

text \<open>
  C6. For a fixed-parameter instance built from positive \<open>kcat_C\<close>, \<open>K_C\<close>,
  \<open>K_O\<close> and \<open>S\<close>, \<^verbatim>\<open>net_vc\<close> returns at all positive concentrations, decreases
  (strictly) in \<open>o2\<close> at every fixed \<open>co2 > 0\<close> and increases (strictly) in
  \<open>co2\<close> at every fixed \<open>o2 > 0\<close>.
\<close>

theorem net_vc_monotone:
  assumes "RuBisCOParams_init kc kC kO s nm w = Inr p"
    and "0 < kc" "0 < kC" "0 < kO" "0 < s"
  shows "(\<forall>c o1 o2. 0 < c \<and> 0 < o1 \<and> o1 < o2 \<longrightarrow>
           (\<exists>r1 r2. RuBisCOParams_net_vc p c o1 = Inr (Finite r1)
              \<and> RuBisCOParams_net_vc p c o2 = Inr (Finite r2) \<and> r2 < r1))
       \<and> (\<forall>ox c1 c2. 0 < ox \<and> 0 < c1 \<and> c1 < c2 \<longrightarrow>
           (\<exists>r1 r2. RuBisCOParams_net_vc p c1 ox = Inr (Finite r1)
              \<and> RuBisCOParams_net_vc p c2 ox = Inr (Finite r2) \<and> r1 < r2))"
proof (intro conjI allI impI)
  have u: "0 < 1 / (2 * s)" and k: "0 < kc * kO"
    using assms by simp_all
  {
    fix c o1 o2 :: real
    assume h: "0 < c \<and> 0 < o1 \<and> o1 < o2"
    then have o2: "0 < o2" by simp
    have "kc * kO * ((c - o2 * (1 / (2 * s))) / (kO * c + kC * kO + kC * o2))
        < kc * kO * ((c - o1 * (1 / (2 * s))) / (kO * c + kC * kO + kC * o1))"
      using net_decreasing_in_o2 [of kC kO "1 / (2 * s)" c o1 o2] assms(3,4) u h k
      by (simp only: mult_less_cancel_left_pos)
    then show "\<exists>r1 r2. RuBisCOParams_net_vc p c o1 = Inr (Finite r1)
              \<and> RuBisCOParams_net_vc p c o2 = Inr (Finite r2) \<and> r2 < r1"
      using net_vc_closed [OF assms(1,3,4,5), of c o1] net_vc_closed [OF assms(1,3,4,5), of c o2]
        h o2 by simp
  }
  {
    fix ox c1 c2 :: real
    assume h: "0 < ox \<and> 0 < c1 \<and> c1 < c2"
    then have c2: "0 < c2" by simp
    have "kc * kO * ((c1 - ox * (1 / (2 * s))) / (kO * c1 + kC * kO + kC * ox))
        < kc * kO * ((c2 - ox * (1 / (2 * s))) / (kO * c2 + kC * kO + kC * ox))"
      using net_increasing_in_co2 [of kC kO "1 / (2 * s)" ox c1 c2] assms(3,4) u h k
      by (simp only: mult_less_cancel_left_pos)
    then show "\<exists>r1 r2. RuBisCOParams_net_vc p c1 ox = Inr (Finite r1)
              \<and> RuBisCOParams_net_vc p c2 ox = Inr (Finite r2) \<and> r1 < r2"
      using net_vc_closed [OF assms(1,3,4,5), of c1 ox] net_vc_closed [OF assms(1,3,4,5), of c2 ox]
        h c2 by simp
  }
qed

theorem net_vc_monotone_witness:
  "RuBisCOParams_init 14.4 172 585 43 (Some ''PCC7942'') None =
     Inr \<lparr>kcat_C = 14.4, K_C = 172, K_O = 585, S = 43, kcat_O = Finite (14.4 * 585 / (172 * 43)),
          RuBisCOParams.name = Some ''PCC7942'', mw = 65000\<rparr>
   \<and> (\<exists>r1 r2.
        RuBisCOParams_net_vc \<lparr>kcat_C = 14.4, K_C = 172, K_O = 585, S = 43,
          kcat_O = Finite (14.4 * 585 / (172 * 43)),
          RuBisCOParams.name = Some ''PCC7942'', mw = 65000\<rparr> 200 250 = Inr (Finite r1)
      \<and> RuBisCOParams_net_vc \<lparr>kcat_C = 14.4, K_C = 172, K_O = 585, S = 43,
          kcat_O = Finite (14.4 * 585 / (172 * 43)),
          RuBisCOParams.name = Some ''PCC7942'', mw = 65000\<rparr> 200 300 = Inr (Finite r2)
      \<and> r2 < r1)
   \<and> (\<exists>r1 r2.
        RuBisCOParams_net_vc \<lparr>kcat_C = 14.4, K_C = 172, K_O = 585, S = 43,
          kcat_O = Finite (14.4 * 585 / (172 * 43)),
          RuBisCOParams.name = Some ''PCC7942'', mw = 65000\<rparr> 200 250 = Inr (Finite r1)
      \<and> RuBisCOParams_net_vc \<lparr>kcat_C = 14.4, K_C = 172, K_O = 585, S = 43,
          kcat_O = Finite (14.4 * 585 / (172 * 43)),
          RuBisCOParams.name = Some ''PCC7942'', mw = 65000\<rparr> 400 250 = Inr (Finite r2)
      \<and> r1 < r2)"
proof -
  let ?p = "\<lparr>kcat_C = 14.4, K_C = 172, K_O = 585, S = 43, kcat_O = Finite (14.4 * 585 / (172 * 43)),
          RuBisCOParams.name = Some ''PCC7942'', mw = 65000\<rparr>"
  have i: "RuBisCOParams_init 14.4 172 585 43 (Some ''PCC7942'') None = Inr ?p"
    by (simp add: init_Inr default_mw_def)
  have m: "(\<forall>c o1 o2. 0 < c \<and> 0 < o1 \<and> o1 < o2 \<longrightarrow>
           (\<exists>r1 r2. RuBisCOParams_net_vc ?p c o1 = Inr (Finite r1)
              \<and> RuBisCOParams_net_vc ?p c o2 = Inr (Finite r2) \<and> r2 < r1))
       \<and> (\<forall>ox c1 c2. 0 < ox \<and> 0 < c1 \<and> c1 < c2 \<longrightarrow>
           (\<exists>r1 r2. RuBisCOParams_net_vc ?p c1 ox = Inr (Finite r1)
              \<and> RuBisCOParams_net_vc ?p c2 ox = Inr (Finite r2) \<and> r1 < r2))"
    by (rule net_vc_monotone [OF i]) simp_all
  have a: "\<exists>r1 r2. RuBisCOParams_net_vc ?p 200 250 = Inr (Finite r1)
      \<and> RuBisCOParams_net_vc ?p 200 300 = Inr (Finite r2) \<and> r2 < r1"
    using m [THEN conjunct1, rule_format, of 200 250 300] by simp
  have b: "\<exists>r1 r2. RuBisCOParams_net_vc ?p 200 250 = Inr (Finite r1)
      \<and> RuBisCOParams_net_vc ?p 400 250 = Inr (Finite r2) \<and> r1 < r2"
    using m [THEN conjunct2, rule_format, of 250 200 400] by simp
  from i a b show ?thesis by blast
qed

section \<open>Temperature-dependent parameters\<close>

lemma sol_ref_temps:
  "HenrysLaw.ref_temp CO2_SOL \<noteq> 0" "HenrysLaw.ref_temp O2_SOL \<noteq> 0"
  "0 < ref_h_cp CO2_SOL" "0 < ref_h_cp O2_SOL"
  by (simp_all add: CO2_SOL_def O2_SOL_def HenrysLaw_init_def REF_T_def)

lemma h_cp_positive:
  assumes "HenrysLaw.ref_temp g \<noteq> 0" and "0 < ref_h_cp g"
  shows "\<exists>h. HenrysLaw_h_cp g temp = Inr h \<and> 0 < h"
  using assms by (simp add: h_cp_nonzero)

lemma value_defined:
  assumes "ArrheniusParam.ref_temp q \<noteq> 0"
  shows "\<exists>v. ArrheniusParam_value q temp = Inr v"
  using assms by (simp add: value_nonzero)

lemma value_zero_ref:
  assumes "ArrheniusParam.ref_temp q = 0"
  shows "ArrheniusParam_value q temp = Inl ZeroDivisionError"
  using assms
  by (simp add: ArrheniusParam_value_def Let_def truediv_def and_then_def split: sum.split)

text \<open>
  Once the four parameters and the two solubility coefficients are evaluated,
  \<^verbatim>\<open>concrete_temp\<close> is one call of the constructor of \<open>RuBisCOParams\<close>, on
  \<^verbatim>\<open>numpy.float64\<close> numbers.
\<close>

lemma concrete_temp_call:
  assumes kc: "ArrheniusParam_value (ArrheniusRubisco.kcat_C m) (Some t) = Inr kc"
    and kC: "ArrheniusParam_value (ArrheniusRubisco.K_C m) (Some t) = Inr kC"
    and kO: "ArrheniusParam_value (ArrheniusRubisco.K_O m) (Some t) = Inr kO"
    and s: "ArrheniusParam_value (ArrheniusRubisco.S m) (Some t) = Inr s"
    and ho: "HenrysLaw_h_cp O2_SOL (Some t) = Inr ho"
    and hc: "HenrysLaw_h_cp CO2_SOL (Some t) = Inr hc"
  shows "HenrysLaw_molar_conc CO2_SOL kC (Some t) = Inr (0.001 * (kC * hc))"
    and "HenrysLaw_molar_conc O2_SOL kO (Some t) = Inr (0.001 * (kO * ho))"
    and "ArrheniusRubisco_concrete_temp m t =
      Inr (RuBisCOParams_init_float64 kc (0.001 * (kC * hc) * 1000000)
        (0.001 * (kO * ho) * 1000000) (s * (ho / hc))
        (ArrheniusRubisco.name m) (Some (ArrheniusRubisco.mw m)))"
proof -
  show c: "HenrysLaw_molar_conc CO2_SOL kC (Some t) = Inr (0.001 * (kC * hc))"
    by (simp add: HenrysLaw_molar_conc_def hc and_then_Inr)
  show o: "HenrysLaw_molar_conc O2_SOL kO (Some t) = Inr (0.001 * (kO * ho))"
    by (simp add: HenrysLaw_molar_conc_def ho and_then_Inr)
  show "ArrheniusRubisco_concrete_temp m t =
      Inr (RuBisCOParams_init_float64 kc (0.001 * (kC * hc) * 1000000)
        (0.001 * (kO * ho) * 1000000) (s * (ho / hc))
        (ArrheniusRubisco.name m) (Some (ArrheniusRubisco.mw m)))"
    unfolding ArrheniusRubisco_concrete_temp_def kc kC kO s c o ho hc and_then_Inr Let_def ..
qed

lemma concrete_temp_general:
  assumes r: "ArrheniusParam.ref_temp (ArrheniusRubisco.kcat_C m) \<noteq> 0"
      "ArrheniusParam.ref_temp (ArrheniusRubisco.K_C m) \<noteq> 0"
      "ArrheniusParam.ref_temp (ArrheniusRubisco.K_O m) \<noteq> 0"
      "ArrheniusParam.ref_temp (ArrheniusRubisco.S m) \<noteq> 0"
  shows "\<exists>kc kC kO s cc co ho hc p.
       ArrheniusParam_value (ArrheniusRubisco.kcat_C m) (Some t) = Inr kc
     \<and> ArrheniusParam_value (ArrheniusRubisco.K_C m) (Some t) = Inr kC
     \<and> ArrheniusParam_value (ArrheniusRubisco.K_O m) (Some t) = Inr kO
     \<and> ArrheniusParam_value (ArrheniusRubisco.S m) (Some t) = Inr s
     \<and> HenrysLaw_molar_conc CO2_SOL kC (Some t) = Inr cc
     \<and> HenrysLaw_molar_conc O2_SOL kO (Some t) = Inr co
     \<and> HenrysLaw_h_cp O2_SOL (Some t) = Inr ho
     \<and> HenrysLaw_h_cp CO2_SOL (Some t) = Inr hc \<and> hc \<noteq> 0
     \<and> ArrheniusRubisco_concrete_temp m t = Inr p
     \<and> kcat_C p = kc \<and> K_C p = cc * 1000000 \<and> K_O p = co * 1000000
     \<and> S p = s * (ho / hc)"
proof -
  obtain kc where kc: "ArrheniusParam_value (ArrheniusRubisco.kcat_C m) (Some t) = Inr kc"
    using value_defined [OF r(1)] by blast
  obtain kC where kC: "ArrheniusParam_value (ArrheniusRubisco.K_C m) (Some t) = Inr kC"
    using value_defined [OF r(2)] by blast
  obtain kO where kO: "ArrheniusParam_value (ArrheniusRubisco.K_O m) (Some t) = Inr kO"
    using value_defined [OF r(3)] by blast
  obtain s where s: "ArrheniusParam_value (ArrheniusRubisco.S m) (Some t) = Inr s"
    using value_defined [OF r(4)] by blast
  obtain ho where ho: "HenrysLaw_h_cp O2_SOL (Some t) = Inr ho"
    using h_cp_positive [OF sol_ref_temps(2) sol_ref_temps(4)] by blast
  obtain hc where hc: "HenrysLaw_h_cp CO2_SOL (Some t) = Inr hc" and hc0: "0 < hc"
    using h_cp_positive [OF sol_ref_temps(1) sol_ref_temps(3)] by blast
  have hcn: "hc \<noteq> 0" using hc0 by simp
  note call = concrete_temp_call [OF kc kC kO s ho hc]
  define p where "p = RuBisCOParams_init_float64 kc (0.001 * (kC * hc) * 1000000)
        (0.001 * (kO * ho) * 1000000) (s * (ho / hc))
        (ArrheniusRubisco.name m) (Some (ArrheniusRubisco.mw m))"
  have p: "ArrheniusRubisco_concrete_temp m t = Inr p"
    unfolding p_def by (rule call(3))
  have fields: "kcat_C p = kc" "K_C p = 0.001 * (kC * hc) * 1000000"
    "K_O p = 0.001 * (kO * ho) * 1000000" "S p = s * (ho / hc)"
    by (simp_all add: p_def RuBisCOParams_init_float64_def)
  from kc kC kO s call(1,2) ho hc hcn p fields show ?thesis by blast
qed

lemma athaliana_fields:
  "ArrheniusRubisco.kcat_C ATHALIANA_T = \<lparr>ref_value = 3.1, ArrheniusParam.ref_temp = 298.15, e_act = 59.6\<rparr>"
  "ArrheniusRubisco.K_C ATHALIANA_T = \<lparr>ref_value = 36, ArrheniusParam.ref_temp = 298.15, e_act = 63.0\<rparr>"
  "ArrheniusRubisco.K_O ATHALIANA_T = \<lparr>ref_value = 23100, ArrheniusParam.ref_temp = 298.15, e_act = 16.9\<rparr>"
  "ArrheniusRubisco.S ATHALIANA_T = \<lparr>ref_value = 2003, ArrheniusParam.ref_temp = 298.15, e_act = - 28.7\<rparr>"
  by (simp_all add: ATHALIANA_T_def ArrheniusRubisco_init_def ArrheniusParam_init_def REF_T_def)

lemma athaliana_values:
  "ArrheniusParam_value (ArrheniusRubisco.kcat_C ATHALIANA_T) (Some 298.15) = Inr 3.1"
  "ArrheniusParam_value (ArrheniusRubisco.K_C ATHALIANA_T) (Some 298.15) = Inr 36"
  "ArrheniusParam_value (ArrheniusRubisco.K_O ATHALIANA_T) (Some 298.15) = Inr 23100"
  "ArrheniusParam_value (ArrheniusRubisco.S ATHALIANA_T) (Some 298.15) = Inr 2003"
  by (simp_all add: athaliana_fields value_nonzero py_or_def)

lemma sol_at_reference:
  "HenrysLaw_h_cp O2_SOL (Some 298.15) = Inr 0.000012"
  "HenrysLaw_h_cp CO2_SOL (Some 298.15) = Inr 0.00033"
proof -
  have ref: "HenrysLaw.ref_temp O2_SOL = 298.15" "ref_h_cp O2_SOL = 0.000012"
    "HenrysLaw.ref_temp CO2_SOL = 298.15" "ref_h_cp CO2_SOL = 0.00033"
    by (simp_all add: CO2_SOL_def O2_SOL_def HenrysLaw_init_def REF_T_def)
  show "HenrysLaw_h_cp O2_SOL (Some 298.15) = Inr 0.000012"
    "HenrysLaw_h_cp CO2_SOL (Some 298.15) = Inr 0.00033"
    by (simp_all add: h_cp_nonzero ref py_or_def)
qed

text \<open>
  C1, as the code has it. For a temperature-dependent model whose four Arrhenius
  parameters have nonzero reference temperatures, and a temperature \<open>t > 0\<close>,
  \<^verbatim>\<open>concrete_temp(t)\<close> returns a fixed-parameter object whose \<open>kcat_C\<close> is
  \<^verbatim>\<open>kcat_C.value(t)\<close>, whose \<open>K_C\<close> is \<^verbatim>\<open>CO2_SOL.molar_conc(K_C.value(t), t) * 1e6\<close>,
  whose \<open>K_O\<close> is \<^verbatim>\<open>O2_SOL.molar_conc(K_O.value(t), t) * 1e6\<close> and whose \<open>S\<close> is
  \<^verbatim>\<open>S.value(t) * (O2_SOL.h_cp(t) / CO2_SOL.h_cp(t))\<close>. For \<^verbatim>\<open>ATHALIANA_T\<close> at 298.15
  the field \<open>kcat_C\<close> is 3.1.
\<close>

theorem concrete_temp_fields:
  "(0 < t
    \<and> ArrheniusParam.ref_temp (ArrheniusRubisco.kcat_C m) \<noteq> 0
    \<and> ArrheniusParam.ref_temp (ArrheniusRubisco.K_C m) \<noteq> 0
    \<and> ArrheniusParam.ref_temp (ArrheniusRubisco.K_O m) \<noteq> 0
    \<and> ArrheniusParam.ref_temp (ArrheniusRubisco.S m) \<noteq> 0
    \<longrightarrow> (\<exists>kc kC kO s cc co ho hc p.
       ArrheniusParam_value (ArrheniusRubisco.kcat_C m) (Some t) = Inr kc
     \<and> ArrheniusParam_value (ArrheniusRubisco.K_C m) (Some t) = Inr kC
     \<and> ArrheniusParam_value (ArrheniusRubisco.K_O m) (Some t) = Inr kO
     \<and> ArrheniusParam_value (ArrheniusRubisco.S m) (Some t) = Inr s
     \<and> HenrysLaw_molar_conc CO2_SOL kC (Some t) = Inr cc
     \<and> HenrysLaw_molar_conc O2_SOL kO (Some t) = Inr co
     \<and> HenrysLaw_h_cp O2_SOL (Some t) = Inr ho
     \<and> HenrysLaw_h_cp CO2_SOL (Some t) = Inr hc \<and> hc \<noteq> 0
     \<and> ArrheniusRubisco_concrete_temp m t = Inr p
     \<and> kcat_C p = kc \<and> K_C p = cc * 1000000 \<and> K_O p = co * 1000000
     \<and> S p = s * (ho / hc)))
   \<and> (\<exists>p. ArrheniusRubisco_concrete_temp ATHALIANA_T 298.15 = Inr p \<and> kcat_C p = 3.1)"
proof (intro conjI impI)
  assume "0 < t
    \<and> ArrheniusParam.ref_temp (ArrheniusRubisco.kcat_C m) \<noteq> 0
    \<and> ArrheniusParam.ref_temp (ArrheniusRubisco.K_C m) \<noteq> 0
    \<and> ArrheniusParam.ref_temp (ArrheniusRubisco.K_O m) \<noteq> 0
    \<and> ArrheniusParam.ref_temp (ArrheniusRubisco.S m) \<noteq> 0"
  then show "\<exists>kc kC kO s cc co ho hc p.
       ArrheniusParam_value (ArrheniusRubisco.kcat_C m) (Some t) = Inr kc
     \<and> ArrheniusParam_value (ArrheniusRubisco.K_C m) (Some t) = Inr kC
     \<and> ArrheniusParam_value (ArrheniusRubisco.K_O m) (Some t) = Inr kO
     \<and> ArrheniusParam_value (ArrheniusRubisco.S m) (Some t) = Inr s
     \<and> HenrysLaw_molar_conc CO2_SOL kC (Some t) = Inr cc
     \<and> HenrysLaw_molar_conc O2_SOL kO (Some t) = Inr co
     \<and> HenrysLaw_h_cp O2_SOL (Some t) = Inr ho
     \<and> HenrysLaw_h_cp CO2_SOL (Some t) = Inr hc \<and> hc \<noteq> 0
     \<and> ArrheniusRubisco_concrete_temp m t = Inr p
     \<and> kcat_C p = kc \<and> K_C p = cc * 1000000 \<and> K_O p = co * 1000000
     \<and> S p = s * (ho / hc)"
    by (intro concrete_temp_general) simp_all
next
  note call = concrete_temp_call [OF athaliana_values sol_at_reference]
  show "\<exists>p. ArrheniusRubisco_concrete_temp ATHALIANA_T 298.15 = Inr p \<and> kcat_C p = 3.1"
    unfolding call(3) by (simp add: RuBisCOParams_init_float64_def)
qed

theorem concrete_temp_fields_witness:
  "\<exists>p. ArrheniusRubisco_concrete_temp ATHALIANA_T 298.15 = Inr p
     \<and> kcat_C p = 3.1 \<and> K_C p = 11.88 \<and> K_O p = 277.2 \<and> S p = 2003 * (0.000012 / 0.00033)"
proof -
  have pre: "(0 :: real) < 298.15
    \<and> ArrheniusParam.ref_temp (ArrheniusRubisco.kcat_C ATHALIANA_T) \<noteq> 0
    \<and> ArrheniusParam.ref_temp (ArrheniusRubisco.K_C ATHALIANA_T) \<noteq> 0
    \<and> ArrheniusParam.ref_temp (ArrheniusRubisco.K_O ATHALIANA_T) \<noteq> 0
    \<and> ArrheniusParam.ref_temp (ArrheniusRubisco.S ATHALIANA_T) \<noteq> 0"
    by (simp add: athaliana_fields)
  from concrete_temp_fields [where t = "298.15" and m = ATHALIANA_T, THEN conjunct1, rule_format, OF pre]
  obtain kc kC kO s cc co ho hc p where
    v: "ArrheniusParam_value (ArrheniusRubisco.kcat_C ATHALIANA_T) (Some 298.15) = Inr kc"
      "ArrheniusParam_value (ArrheniusRubisco.K_C ATHALIANA_T) (Some 298.15) = Inr kC"
      "ArrheniusParam_value (ArrheniusRubisco.K_O ATHALIANA_T) (Some 298.15) = Inr kO"
      "ArrheniusParam_value (ArrheniusRubisco.S ATHALIANA_T) (Some 298.15) = Inr s"
    and c: "HenrysLaw_molar_conc CO2_SOL kC (Some 298.15) = Inr cc"
      "HenrysLaw_molar_conc O2_SOL kO (Some 298.15) = Inr co"
    and h: "HenrysLaw_h_cp O2_SOL (Some 298.15) = Inr ho"
      "HenrysLaw_h_cp CO2_SOL (Some 298.15) = Inr hc"
    and p: "ArrheniusRubisco_concrete_temp ATHALIANA_T 298.15 = Inr p"
    and f: "kcat_C p = kc \<and> K_C p = cc * 1000000 \<and> K_O p = co * 1000000
           \<and> S p = s * (ho / hc)"
    by blast
  from v [unfolded athaliana_values] have v': "kc = 3.1" "kC = 36" "kO = 23100" "s = 2003"
    by simp_all
  from h [unfolded sol_at_reference] have h': "ho = 0.000012" "hc = 0.00033"
    by simp_all
  from c [unfolded HenrysLaw_molar_conc_def sol_at_reference and_then_Inr Let_def v']
  have c': "cc = 0.001 * (36 * 0.00033)" "co = 0.001 * (23100 * 0.000012)"
    by simp_all
  from f have "kcat_C p = 3.1 \<and> K_C p = 11.88 \<and> K_O p = 277.2 \<and> S p = 2003 * (0.000012 / 0.00033)"
    unfolding v' h' c' by simp
  with p show ?thesis by blast
qed

text \<open>
  \<^verbatim>\<open>ATHALIANA_T\<close> with the reference temperature of its \<open>kcat_C\<close> set to zero, at
  310 K: \<^verbatim>\<open>ArrheniusParam.value\<close> divides by \<^verbatim>\<open>self.ref_temp\<close>, Python numbers both, and
  raises \<^verbatim>\<open>ZeroDivisionError\<close>.
\<close>

theorem concrete_temp_zero_reference_counterexample:
  "(0 :: real) < 310
   \<and> ArrheniusRubisco_concrete_temp
      (ArrheniusRubisco_init
        (ArrheniusParam_init 3.1 0 59.6)
        (ArrheniusParam_init 36 REF_T 63.0)
        (ArrheniusParam_init 23100 REF_T 16.9)
        (ArrheniusParam_init 2003 REF_T (- 28.7))
        (Some REF_T) (Some ''A. thaliana'') None) 310
     = Inl ZeroDivisionError"
  by (simp add: ArrheniusRubisco_concrete_temp_def ArrheniusRubisco_init_def
      ArrheniusParam_init_def value_zero_ref and_then_Inl)

text \<open>
  C5. For every temperature-dependent model, all concentrations and any temperature
  argument, \<^verbatim>\<open>vs\<close> and \<^verbatim>\<open>net_vc\<close> are \<^verbatim>\<open>vs\<close> and \<^verbatim>\<open>net_vc\<close> of
  \<^verbatim>\<open>concrete_temp(t')\<close>, where \<open>t'\<close> is the supplied temperature when there is one and
  it is not zero, and the reference temperature of the model otherwise.
\<close>

theorem temperature_resolution:
  "ArrheniusRubisco_vs m co2 o2 t =
     (case ArrheniusRubisco_concrete_temp m (resolved_temperature m t) of
        Inl e \<Rightarrow> Inl e | Inr rps \<Rightarrow> RuBisCOParams_vs rps co2 o2)
   \<and> ArrheniusRubisco_net_vc m co2 o2 t =
     (case ArrheniusRubisco_concrete_temp m (resolved_temperature m t) of
        Inl e \<Rightarrow> Inl e | Inr rps \<Rightarrow> RuBisCOParams_net_vc rps co2 o2)"
proof -
  have "py_or t (ArrheniusRubisco.ref_temp m) = resolved_temperature m t"
    by (cases t) (simp_all add: py_or_def resolved_temperature_def)
  then show ?thesis
    by (simp add: ArrheniusRubisco_vs_def ArrheniusRubisco_net_vc_def Let_def and_then_def)
qed

theorem temperature_resolution_witness:
  "resolved_temperature ATHALIANA_T (Some 0) = 298.15
   \<and> resolved_temperature ATHALIANA_T None = 298.15
   \<and> resolved_temperature ATHALIANA_T (Some 310) = 310
   \<and> ArrheniusRubisco_vs ATHALIANA_T 200 250 (Some 0) = ArrheniusRubisco_vs ATHALIANA_T 200 250 None
   \<and> ArrheniusRubisco_net_vc ATHALIANA_T 200 250 (Some 0) =
       ArrheniusRubisco_net_vc ATHALIANA_T 200 250 (Some 298.15)"
proof -
  have r: "resolved_temperature ATHALIANA_T (Some 0) = 298.15"
    "resolved_temperature ATHALIANA_T None = 298.15"
    "resolved_temperature ATHALIANA_T (Some 310) = 310"
    "resolved_temperature ATHALIANA_T (Some 298.15) = 298.15"
    by (simp_all add: resolved_temperature_def ATHALIANA_T_def ArrheniusRubisco_init_def
        py_or_def REF_T_def)
  show ?thesis
    using temperature_resolution [of ATHALIANA_T 200 250 "Some 0"]
      temperature_resolution [of ATHALIANA_T 200 250 None]
      temperature_resolution [of ATHALIANA_T 200 250 "Some 298.15"]
    by (simp only: r)
qed

end
